theory Spec2Isabelle
  imports Complex_Main
begin

section \<open>Python values and errors\<close>

text \<open>
  The three pipeline components (\<^verbatim>\<open>read_raw_data\<close>, \<^verbatim>\<open>split_data\<close>, \<^verbatim>\<open>train\<close>) are
  Python functions. Each exception a component can raise is a value of \<open>error\<close>, and a
  computation that may raise returns \<open>error + 'a\<close> with \<open>Inl\<close> for the exception.
\<close>

datatype error = ValueError | OverflowError | KeyError | IndexError | ZeroDivisionError

text \<open>
  A Python \<^verbatim>\<open>float\<close>: a finite value, an infinity or not-a-number. Rounding of finite
  values is not modelled (a finite float is a real number); the special values are kept
  because the conversion \<^verbatim>\<open>int(x)\<close> raises on them.
\<close>

datatype pyfloat = Finite real | PosInf | NegInf | NaN

text \<open>\<^verbatim>\<open>n * x\<close> for an \<^verbatim>\<open>int\<close> \<open>n\<close> and a \<^verbatim>\<open>float\<close> \<open>x\<close>.\<close>

fun int_times_float :: "int \<Rightarrow> pyfloat \<Rightarrow> pyfloat" where
  "int_times_float n (Finite x) = Finite (real_of_int n * x)"
| "int_times_float n PosInf = (if n = 0 then NaN else if 0 < n then PosInf else NegInf)"
| "int_times_float n NegInf = (if n = 0 then NaN else if 0 < n then NegInf else PosInf)"
| "int_times_float n NaN = NaN"

text \<open>
  \<^verbatim>\<open>int(x)\<close> for a \<^verbatim>\<open>float\<close>: truncation towards zero; \<^verbatim>\<open>OverflowError\<close> on an
  infinity and \<^verbatim>\<open>ValueError\<close> on not-a-number.
\<close>

fun int_of_float :: "pyfloat \<Rightarrow> error + int" where
  "int_of_float (Finite x) = Inr (if 0 \<le> x then \<lfloor>x\<rfloor> else \<lceil>x\<rceil>)"
| "int_of_float PosInf = Inl OverflowError"
| "int_of_float NegInf = Inl OverflowError"
| "int_of_float NaN = Inl ValueError"

section \<open>\<^verbatim>\<open>split_data\<close>\<close>

text \<open>
  A data frame read by \<^verbatim>\<open>pd.read_csv(..., index_col=False)\<close> carries the default index
  \<open>0, 1, \<dots>, n - 1\<close>, so it is the list of its rows and a row's label is its position.
  \<^verbatim>\<open>df.loc[:k]\<close> and \<^verbatim>\<open>df.loc[k:]\<close> slice by label and both include the label \<open>k\<close>;
  a bound outside the index is allowed and selects what lies on its side of it.
\<close>

definition loc_to :: "int \<Rightarrow> 'row list \<Rightarrow> 'row list" where
  "loc_to k df = take (nat (k + 1)) df"

definition loc_from :: "int \<Rightarrow> 'row list \<Rightarrow> 'row list" where
  "loc_from k df = drop (nat k) df"

text \<open>
  \<^verbatim>\<open>split_data(train_data_size, processed_data, train_data, test_data)\<close>: the result is
  the pair of tables written to \<^verbatim>\<open>train_data\<close> and \<^verbatim>\<open>test_data\<close>. The cut index is
  computed twice, once per slice, as in the source.
\<close>

definition split_data :: "pyfloat \<Rightarrow> 'row list \<Rightarrow> error + ('row list \<times> 'row list)" where
  "split_data train_data_size processed_df =
     (case int_of_float (int_times_float (int (length processed_df)) train_data_size) of
        Inl e \<Rightarrow> Inl e
      | Inr k \<Rightarrow>
          let train_df = loc_to k processed_df in
          (case int_of_float (int_times_float (int (length processed_df)) train_data_size) of
             Inl e \<Rightarrow> Inl e
           | Inr k' \<Rightarrow>
               let test_df = loc_from k' processed_df in
               Inr (train_df, test_df)))"

section \<open>Strings\<close>

text \<open>
  File names are Python \<^verbatim>\<open>str\<close> values; a character is read as a code point below 256.
  The functions below are the \<^verbatim>\<open>str\<close> methods and operators the ingestion uses.
\<close>

text \<open>\<^verbatim>\<open>s.split(sep)\<close> for a one-character separator; \<open>cur\<close> is the segment read so far.\<close>

fun split_from :: "char \<Rightarrow> string \<Rightarrow> string \<Rightarrow> string list" where
  "split_from sep cur [] = [cur]"
| "split_from sep cur (c # cs) =
     (if c = sep then cur # split_from sep [] cs else split_from sep (cur @ [c]) cs)"

definition split :: "char \<Rightarrow> string \<Rightarrow> string list" where
  "split sep s = split_from sep [] s"

text \<open>
  \<^verbatim>\<open>s[i:]\<close>: a negative bound of a slice counts from the end, and a bound outside the
  sequence (of length \<open>n\<close>) is clipped to it.
\<close>

definition clip_index :: "int \<Rightarrow> int \<Rightarrow> int" where
  "clip_index n i = (if i < 0 then max 0 (n + i) else min i n)"

definition slice_from :: "int \<Rightarrow> 'a list \<Rightarrow> 'a list" where
  "slice_from i xs = drop (nat (clip_index (int (length xs)) i)) xs"

text \<open>\<^verbatim>\<open>s.lstrip(chars)\<close>: drops the leading characters that occur in \<open>chars\<close>.\<close>

definition lstrip :: "string \<Rightarrow> string \<Rightarrow> string" where
  "lstrip chars s = dropWhile (\<lambda>c. c \<in> set chars) s"

text \<open>\<^verbatim>\<open>s.endswith(suffix)\<close> and \<^verbatim>\<open>sub in s\<close>.\<close>

definition endswith :: "string \<Rightarrow> string \<Rightarrow> bool" where
  "endswith suffix s \<longleftrightarrow>
     length suffix \<le> length s \<and> drop (length s - length suffix) s = suffix"

fun contains :: "string \<Rightarrow> string \<Rightarrow> bool" where
  "contains sub [] \<longleftrightarrow> sub = []"
| "contains sub (c # cs) \<longleftrightarrow> take (length sub) (c # cs) = sub \<or> contains sub cs"

text \<open>
  \<^verbatim>\<open>int(s)\<close> for a string, base ten: white space around the literal is dropped (the six
  ASCII white space characters, and the two other white space code points below 256),
  one sign may lead, and the digits may be grouped by single underscores that stand
  between two digits. Anything else is a \<^verbatim>\<open>ValueError\<close>. (Decimal digits beyond ASCII,
  which Python also reads, are outside the character type.)
\<close>

definition is_space :: "char \<Rightarrow> bool" where
  "is_space c \<longleftrightarrow>
     (of_char c :: nat) \<in> {9, 10, 11, 12, 13, 32, 133, 160}"

definition is_digit :: "char \<Rightarrow> bool" where
  "is_digit c \<longleftrightarrow> 48 \<le> (of_char c :: nat) \<and> (of_char c :: nat) \<le> 57"

definition digit_val :: "char \<Rightarrow> nat" where
  "digit_val c = of_char c - 48"

definition strip :: "string \<Rightarrow> string" where
  "strip s = rev (dropWhile is_space (rev (dropWhile is_space s)))"

text \<open>\<open>parse_digits acc cs\<close> continues a literal after a digit; \<open>acc\<close> is its value so far.\<close>

fun parse_digits :: "nat \<Rightarrow> string \<Rightarrow> nat option" where
  "parse_digits acc [] = Some acc"
| "parse_digits acc [c] = (if is_digit c then Some (10 * acc + digit_val c) else None)"
| "parse_digits acc (c # d # cs) =
     (if is_digit c then parse_digits (10 * acc + digit_val c) (d # cs)
      else if c = CHR ''_'' \<and> is_digit d then parse_digits (10 * acc + digit_val d) cs
      else None)"

definition parse_unsigned :: "string \<Rightarrow> nat option" where
  "parse_unsigned s =
     (case s of
        [] \<Rightarrow> None
      | c # cs \<Rightarrow> if is_digit c then parse_digits (digit_val c) cs else None)"

definition py_int :: "string \<Rightarrow> error + int" where
  "py_int s =
     (let t = strip s;
          (negative, digits) =
            (case t of
               [] \<Rightarrow> (False, t)
             | c # cs \<Rightarrow>
                 if c = CHR ''-'' then (True, cs)
                 else if c = CHR ''+'' then (False, cs)
                 else (False, t))
      in case parse_unsigned digits of
           None \<Rightarrow> Inl ValueError
         | Some n \<Rightarrow> Inr (if negative then - int n else int n))"

section \<open>\<^verbatim>\<open>read_raw_data\<close>\<close>

text \<open>
  The unit of a file name (lines 55 to 59 of \<^verbatim>\<open>read_raw_data.py\<close>):
  \<^verbatim>\<open>
  name_list = file.split('-')
  try:
      unit = int(name_list[0][-3:].lstrip('0D'))
  except ValueError:
      unit = int(name_list[0].split('_')[0][-3:].lstrip('0D'))
  \<close>
  \<^verbatim>\<open>split\<close> never returns the empty list, so the index \<open>0\<close> is always in range.
\<close>

definition unit_of :: "string \<Rightarrow> error + int" where
  "unit_of file =
     (let name_list = split CHR ''-'' file in
      case py_int (lstrip ''0D'' (slice_from (- 3) (name_list ! 0))) of
        Inr unit \<Rightarrow> Inr unit
      | Inl ValueError \<Rightarrow>
          py_int (lstrip ''0D'' (slice_from (- 3) (split CHR ''_'' (name_list ! 0) ! 0)))
      | Inl e \<Rightarrow> Inl e)"

text \<open>
  The two accepting branches of the loop body: a \<^verbatim>\<open>.csv\<close> name that contains
  \<^verbatim>\<open>RAW\<close> is read by \<^verbatim>\<open>pd.read_csv\<close>, an \<^verbatim>\<open>.xlsx\<close> or \<^verbatim>\<open>.xls\<close> name that contains
  it by \<^verbatim>\<open>pd.read_excel\<close>.
\<close>

definition is_raw_csv :: "string \<Rightarrow> bool" where
  "is_raw_csv file \<longleftrightarrow> endswith ''.csv'' file \<and> contains ''RAW'' file"

definition is_raw_excel :: "string \<Rightarrow> bool" where
  "is_raw_excel file \<longleftrightarrow>
     (endswith ''.xlsx'' file \<or> endswith ''.xls'' file) \<and> contains ''RAW'' file"

text \<open>
  A row of the combined table: the columns read from the file, and the two columns the
  loop adds. The messages given to \<^verbatim>\<open>logging.info\<close> are kept in \<open>messages\<close>.
\<close>

record 'r labelled_row =
  raw :: 'r
  UNIT :: int
  TEST :: int

datatype log_message =
  Reading string
| Not_valid_raw_data_file string
| Cannot_read string
| Has_been_read string

record 'r scan_state =
  final_df :: "'r labelled_row list"
  units :: "int list"
  messages :: "log_message list"

text \<open>
  A directory entry is a file name with what the pandas reader chosen by its extension
  returns for it: the rows of the file, or \<open>None\<close> when the reader raises (the bare
  \<^verbatim>\<open>except\<close> of the loop catches every exception of the read).

  \<open>read_file\<close> is one pass of the loop body (lines 32 to 65). The unit is extracted
  outside the \<^verbatim>\<open>try\<close> block, so its \<^verbatim>\<open>ValueError\<close> leaves the loop and the function.
\<close>

definition info :: "log_message \<Rightarrow> 'r scan_state \<Rightarrow> 'r scan_state" where
  "info m st = st\<lparr>messages := messages st @ [m]\<rparr>"

definition read_file :: "'r scan_state \<Rightarrow> string \<times> 'r list option \<Rightarrow> error + 'r scan_state" where
  "read_file st entry =
     (let (file, content) = entry;
          st = info (Reading file) st
      in if is_raw_csv file \<or> is_raw_excel file then
           (case content of
              None \<Rightarrow> Inr (info (Cannot_read file) st)
            | Some current_df \<Rightarrow>
                let st = info (Has_been_read file) st in
                (case unit_of file of
                   Inl e \<Rightarrow> Inl e
                 | Inr unit \<Rightarrow>
                     let units' = units st @ [unit];
                         test = int (count_list units' unit);
                         current_df' = map (\<lambda>r. \<lparr>raw = r, UNIT = unit, TEST = test\<rparr>) current_df
                     in Inr (st\<lparr>units := units', final_df := final_df st @ current_df'\<rparr>)))
         else Inr (info (Not_valid_raw_data_file file) st))"

fun read_files :: "'r scan_state \<Rightarrow> (string \<times> 'r list option) list \<Rightarrow> error + 'r scan_state" where
  "read_files st [] = Inr st"
| "read_files st (entry # rest) =
     (case read_file st entry of
        Inl e \<Rightarrow> Inl e
      | Inr st' \<Rightarrow> read_files st' rest)"

text \<open>
  \<^verbatim>\<open>read_raw_data\<close> on a directory listing (in the order \<^verbatim>\<open>os.listdir\<close> returns it). The
  table written to \<^verbatim>\<open>interim_data\<close> is \<open>final_df\<close> of the final state; the list of its
  column names, written to \<^verbatim>\<open>all_features\<close>, is not modelled.
\<close>

definition read_raw_data :: "(string \<times> 'r list option) list \<Rightarrow> error + 'r scan_state" where
  "read_raw_data listing = read_files \<lparr>final_df = [], units = [], messages = []\<rparr> listing"

subsection \<open>The ingestion as the specification words it\<close>

text \<open>
  The unit of a file name in the words of the specification (section 4.1): take the
  first segment of the name before a \<^verbatim>\<open>-\<close>, its last three characters, strip leading
  \<^verbatim>\<open>0\<close> and \<^verbatim>\<open>D\<close> characters and parse an integer; only if that parse fails, do the
  same with the part of the first segment before a \<^verbatim>\<open>_\<close>.
\<close>

definition first_segment :: "char \<Rightarrow> string \<Rightarrow> string" where
  "first_segment sep s = takeWhile (\<lambda>c. c \<noteq> sep) s"

definition last_three :: "string \<Rightarrow> string" where
  "last_three s = drop (length s - 3) s"

definition strip_leading_0D :: "string \<Rightarrow> string" where
  "strip_leading_0D s = dropWhile (\<lambda>c. c = CHR ''0'' \<or> c = CHR ''D'') s"

definition spec_unit_of :: "string \<Rightarrow> error + int" where
  "spec_unit_of file =
     (case py_int (strip_leading_0D (last_three (first_segment CHR ''-'' file))) of
        Inr unit \<Rightarrow> Inr unit
      | Inl e \<Rightarrow>
          py_int (strip_leading_0D (last_three
            (first_segment CHR ''_'' (first_segment CHR ''-'' file)))))"

text \<open>
  An entry is read when its name has one of the three extensions and contains the marker
  and the reader returns its rows. The labelled files of a listing are the entries read
  whose name has a unit, in the order of the listing, each with its unit and its rows.
\<close>

definition accepted :: "string \<Rightarrow> bool" where
  "accepted file \<longleftrightarrow>
     (endswith ''.csv'' file \<or> endswith ''.xlsx'' file \<or> endswith ''.xls'' file)
     \<and> contains ''RAW'' file"

definition is_read :: "string \<times> 'r list option \<Rightarrow> bool" where
  "is_read entry \<longleftrightarrow> accepted (fst entry) \<and> snd entry \<noteq> None"

fun labelled_files :: "(string \<times> 'r list option) list \<Rightarrow> (int \<times> 'r list) list" where
  "labelled_files [] = []"
| "labelled_files ((file, content) # rest) =
     (if accepted file then
        (case content of
           None \<Rightarrow> labelled_files rest
         | Some df \<Rightarrow>
             (case unit_of file of
                Inl e \<Rightarrow> labelled_files rest
              | Inr unit \<Rightarrow> (unit, df) # labelled_files rest))
      else labelled_files rest)"

text \<open>
  What a scan leaves behind, the log apart: its error, or its table and units.
\<close>

definition outcome :: "error + 'r scan_state \<Rightarrow> error + ('r labelled_row list \<times> int list)" where
  "outcome res = (case res of Inl e \<Rightarrow> Inl e | Inr st \<Rightarrow> Inr (final_df st, units st))"

section \<open>\<^verbatim>\<open>train\<close>\<close>

subsection \<open>The scaler\<close>

text \<open>
  \<^verbatim>\<open>MinMaxScaler(feature_range=(0, 1)).fit_transform(train_data)\<close> on the one column of
  the feature (values are real numbers here). The fit refuses an empty column with a
  \<^verbatim>\<open>ValueError\<close>. It divides the width of the feature range by the data range after
  \<^verbatim>\<open>_handle_zeros_in_scale\<close> has replaced a range below ten machine epsilons by 1.
  numpy would answer a division by zero with an infinity and a warning; \<open>divide\<close> is
  stricter and makes it an error, so that a result \<open>Inr\<close> also says that no division
  by zero took place.
\<close>

record scaler =
  data_min :: real
  data_max :: real
  data_range :: real
  scale :: real
  min_offset :: real

definition float_eps :: real where
  "float_eps = 1 / 2 ^ 52"

definition handle_zeros_in_scale :: "real \<Rightarrow> real" where
  "handle_zeros_in_scale s = (if s < 10 * float_eps then 1 else s)"

definition divide :: "real \<Rightarrow> real \<Rightarrow> error + real" where
  "divide x y = (if y = 0 then Inl ZeroDivisionError else Inr (x / y))"

definition scaler_fit :: "real list \<Rightarrow> error + scaler" where
  "scaler_fit X =
     (if X = [] then Inl ValueError
      else
        let dmin = Min (set X);
            dmax = Max (set X);
            drange = dmax - dmin
        in case divide (1 - 0) (handle_zeros_in_scale drange) of
             Inl e \<Rightarrow> Inl e
           | Inr sc \<Rightarrow>
               Inr \<lparr>data_min = dmin, data_max = dmax, data_range = drange,
                    scale = sc, min_offset = 0 - dmin * sc\<rparr>)"

definition transform :: "scaler \<Rightarrow> real list \<Rightarrow> real list" where
  "transform s X = map (\<lambda>x. x * scale s + min_offset s) X"

definition fit_transform :: "real list \<Rightarrow> error + (scaler \<times> real list)" where
  "fit_transform X =
     (case scaler_fit X of
        Inl e \<Rightarrow> Inl e
      | Inr s \<Rightarrow> Inr (s, transform s X))"

subsection \<open>The supervised windows\<close>

text \<open>
  Lines 58 to 63 of \<^verbatim>\<open>train.py\<close>:
  \<^verbatim>\<open>
  x_train, y_train = [], []
  for i in range(lookback, len(scaled_train)):
      x_train.append(scaled_train[i - lookback:i])
      y_train.append(scaled_train[i])
  x_train = np.stack(x_train)
  y_train = np.stack(y_train)
  \<close>
  \<open>scaled_train\<close> has one column, so it is the list of its values: a window
  \<^verbatim>\<open>scaled_train[a:b]\<close> is a list of values and a row \<^verbatim>\<open>scaled_train[i]\<close> a list of one
  value. An index outside the array raises \<^verbatim>\<open>IndexError\<close>; \<^verbatim>\<open>np.stack\<close> raises
  \<^verbatim>\<open>ValueError\<close> on an empty list and on arrays of different shapes.
\<close>

definition py_range :: "int \<Rightarrow> int \<Rightarrow> int list" where
  "py_range a b = [a..b - 1]"

definition np_index :: "'a list \<Rightarrow> int \<Rightarrow> error + 'a" where
  "np_index a i =
     (if 0 \<le> i \<and> i < int (length a) then Inr (a ! nat i)
      else if - int (length a) \<le> i \<and> i < 0 then Inr (a ! nat (int (length a) + i))
      else Inl IndexError)"

definition np_slice :: "'a list \<Rightarrow> int \<Rightarrow> int \<Rightarrow> 'a list" where
  "np_slice a i j =
     (let n = int (length a);
          lo = clip_index n i;
          hi = clip_index n j
      in take (nat (hi - lo)) (drop (nat lo) a))"

definition np_stack :: "'a list list \<Rightarrow> error + 'a list list" where
  "np_stack arrays =
     (if arrays = [] then Inl ValueError
      else if list_ex (\<lambda>a. length a \<noteq> length (hd arrays)) arrays then Inl ValueError
      else Inr arrays)"

fun window_loop ::
  "int \<Rightarrow> real list \<Rightarrow> int list \<Rightarrow> real list list \<times> real list list \<Rightarrow>
     error + (real list list \<times> real list list)" where
  "window_loop lookback scaled_train [] (x_train, y_train) = Inr (x_train, y_train)"
| "window_loop lookback scaled_train (i # rest) (x_train, y_train) =
     (let x_train' = x_train @ [np_slice scaled_train (i - lookback) i] in
      case np_index scaled_train i of
        Inl e \<Rightarrow> Inl e
      | Inr row \<Rightarrow> window_loop lookback scaled_train rest (x_train', y_train @ [[row]]))"

definition supervised_windows ::
  "int \<Rightarrow> real list \<Rightarrow> error + (real list list \<times> real list list)" where
  "supervised_windows lookback scaled_train =
     (case window_loop lookback scaled_train
             (py_range lookback (int (length scaled_train))) ([], []) of
        Inl e \<Rightarrow> Inl e
      | Inr (x_train, y_train) \<Rightarrow>
          (case np_stack x_train of
             Inl e \<Rightarrow> Inl e
           | Inr x \<Rightarrow>
               (case np_stack y_train of
                  Inl e \<Rightarrow> Inl e
                | Inr y \<Rightarrow> Inr (x, y))))"

subsection \<open>The network and its training loop\<close>

text \<open>
  The numeric part of Keras is a parameter: \<open>build\<close> makes and compiles the network
  (\<^verbatim>\<open>Sequential\<close>, \<^verbatim>\<open>LSTM\<close>, \<^verbatim>\<open>Dense\<close>, \<^verbatim>\<open>compile\<close>) from \<^verbatim>\<open>lstm_units\<close>, the input shape
  and the learning rate, and returns its initial weights; \<open>train_epoch\<close> runs the
  batches of one epoch at a learning rate and returns the new weights with the loss and
  the metric of the epoch; \<open>evaluate\<close> is the loss and the metric of given weights on the
  validation samples. The first two may raise. What is modelled in full is the control
  that \<^verbatim>\<open>train.py\<close> configures around them (lines 74 to 93): the validation split, the
  epoch loop and the two callbacks, each as the Keras library runs it.
\<close>

record 'w backend =
  build :: "int \<Rightarrow> nat \<times> nat \<Rightarrow> real \<Rightarrow> error + 'w"
  train_epoch ::
    "'w \<Rightarrow> real \<Rightarrow> int \<Rightarrow> real list list \<Rightarrow> real list list \<Rightarrow> error + ('w \<times> real \<times> real)"
  evaluate :: "'w \<Rightarrow> real list list \<Rightarrow> real list list \<Rightarrow> real \<times> real"

record epoch_logs =
  loss :: real
  root_mean_squared_error :: real
  val_loss :: real
  val_root_mean_squared_error :: real
  lr :: real

text \<open>
  \<^verbatim>\<open>EarlyStopping(patience=patience, monitor='val_loss', mode='min',
  restore_best_weights=True)\<close>, with the defaults \<^verbatim>\<open>min_delta=0\<close> and no baseline. The
  best value starts at infinity (\<open>None\<close>), which every loss improves on. At the end of
  an epoch the callback counts the epoch, takes the weights and clears the count when
  the monitored value is below the best one, and, after the first epoch, stops the
  training and puts the best weights back once the count has reached \<open>patience\<close>.
\<close>

record 'w early_stopping =
  es_wait :: nat
  es_best :: "real option"
  es_best_weights :: "'w option"
  es_best_epoch :: nat
  es_stopped_epoch :: nat

definition is_improvement :: "real \<Rightarrow> real option \<Rightarrow> bool" where
  "is_improvement current best = (case best of None \<Rightarrow> True | Some b \<Rightarrow> current < b)"

definition es_on_epoch_end ::
  "int \<Rightarrow> nat \<Rightarrow> real \<Rightarrow> 'w \<Rightarrow> 'w early_stopping \<Rightarrow> 'w early_stopping \<times> bool \<times> 'w" where
  "es_on_epoch_end patience epoch current w es =
     (let es = (if es_best_weights es = None then es\<lparr>es_best_weights := Some w\<rparr> else es);
          es = es\<lparr>es_wait := es_wait es + 1\<rparr>;
          es = (if is_improvement current (es_best es)
                then es\<lparr>es_best := Some current, es_best_epoch := epoch,
                        es_best_weights := Some w, es_wait := 0\<rparr>
                else es)
      in if patience \<le> int (es_wait es) \<and> 0 < epoch
         then (es\<lparr>es_stopped_epoch := epoch\<rparr>, True,
               (case es_best_weights es of None \<Rightarrow> w | Some b \<Rightarrow> b))
         else (es, False, w))"

text \<open>
  \<^verbatim>\<open>ReduceLROnPlateau(monitor='val_loss', factor=0.75, patience=patience // 2,
  mode='min')\<close>, with the defaults \<^verbatim>\<open>min_delta=1e-4\<close>, \<^verbatim>\<open>cooldown=0\<close> and \<^verbatim>\<open>min_lr=0\<close>.
\<close>

record reduce_lr =
  rlr_wait :: nat
  rlr_best :: "real option"

definition rlr_on_epoch_end :: "int \<Rightarrow> real \<Rightarrow> real \<Rightarrow> reduce_lr \<Rightarrow> reduce_lr \<times> real" where
  "rlr_on_epoch_end patience current old_lr r =
     (if (case rlr_best r of None \<Rightarrow> True | Some b \<Rightarrow> current < b - 1 / 10000)
      then (r\<lparr>rlr_best := Some current, rlr_wait := 0\<rparr>, old_lr)
      else
        let r = r\<lparr>rlr_wait := rlr_wait r + 1\<rparr> in
        if patience \<le> int (rlr_wait r) \<and> 0 < old_lr
        then (r\<lparr>rlr_wait := 0\<rparr>, max (old_lr * (75 / 100)) 0)
        else (r, old_lr))"

text \<open>
  The state of \<^verbatim>\<open>forecaster.fit\<close>: the weights and the learning rate of the optimizer,
  the two callbacks, the history (one record an epoch, written by the \<^verbatim>\<open>History\<close>
  callback, which runs after the other two) and the flag \<^verbatim>\<open>stop_training\<close>.
\<close>

record 'w fit_state =
  weights :: 'w
  learning_rate :: real
  early :: "'w early_stopping"
  plateau :: reduce_lr
  history :: "epoch_logs list"
  stop_training :: bool

definition run_epoch ::
  "'w backend \<Rightarrow> int \<Rightarrow> int \<Rightarrow>
     real list list \<times> real list list \<Rightarrow> real list list \<times> real list list \<Rightarrow>
     nat \<Rightarrow> 'w fit_state \<Rightarrow> error + 'w fit_state" where
  "run_epoch be batch_size patience train_part val_part epoch st =
     (case train_epoch be (weights st) (learning_rate st) batch_size
             (fst train_part) (snd train_part) of
        Inl e \<Rightarrow> Inl e
      | Inr (w, l, m) \<Rightarrow>
          let (vl, vm) = evaluate be w (fst val_part) (snd val_part);
              (es, stop, w') = es_on_epoch_end patience epoch vl w (early st);
              logs = \<lparr>loss = l, root_mean_squared_error = m, val_loss = vl,
                      val_root_mean_squared_error = vm, lr = learning_rate st\<rparr>;
              (r, new_lr) = rlr_on_epoch_end (patience div 2) vl (learning_rate st) (plateau st)
          in Inr \<lparr>weights = w', learning_rate = new_lr, early = es, plateau = r,
                  history = history st @ [logs], stop_training = stop\<rparr>)"

text \<open>\<^verbatim>\<open>for epoch in range(epochs)\<close>, left when a callback has set \<^verbatim>\<open>stop_training\<close>.\<close>

fun epoch_loop ::
  "'w backend \<Rightarrow> int \<Rightarrow> int \<Rightarrow>
     real list list \<times> real list list \<Rightarrow> real list list \<times> real list list \<Rightarrow>
     nat list \<Rightarrow> 'w fit_state \<Rightarrow> error + 'w fit_state" where
  "epoch_loop be batch_size patience train_part val_part [] st = Inr st"
| "epoch_loop be batch_size patience train_part val_part (epoch # rest) st =
     (case run_epoch be batch_size patience train_part val_part epoch st of
        Inl e \<Rightarrow> Inl e
      | Inr st' \<Rightarrow>
          if stop_training st' then Inr st'
          else epoch_loop be batch_size patience train_part val_part rest st')"

text \<open>
  \<^verbatim>\<open>validation_split=0.2\<close> with \<^verbatim>\<open>shuffle=False\<close>: the samples are cut at
  \<open>\<lfloor>n * (1 - 0.2)\<rfloor>\<close>; the head trains, the tail validates, and a cut that leaves
  either part empty is a \<^verbatim>\<open>ValueError\<close>.
\<close>

definition validation_cut :: "nat \<Rightarrow> nat" where
  "validation_cut n = nat \<lfloor>real n * (1 - 2 / 10)\<rfloor>"

definition model_fit ::
  "'w backend \<Rightarrow> 'w \<Rightarrow> real \<Rightarrow> real list list \<Rightarrow> real list list \<Rightarrow> int \<Rightarrow> int \<Rightarrow> int \<Rightarrow>
     error + ('w \<times> epoch_logs list)" where
  "model_fit be w0 lr0 x_train y_train epochs batch_size patience =
     (let split_at = validation_cut (length x_train) in
      if split_at = 0 \<or> split_at = length x_train then Inl ValueError
      else
        let train_part = (take split_at x_train, take split_at y_train);
            val_part = (drop split_at x_train, drop split_at y_train);
            st0 = \<lparr>weights = w0, learning_rate = lr0,
                   early = \<lparr>es_wait = 0, es_best = None, es_best_weights = None,
                            es_best_epoch = 0, es_stopped_epoch = 0\<rparr>,
                   plateau = \<lparr>rlr_wait = 0, rlr_best = None\<rparr>,
                   history = [], stop_training = False\<rparr>
        in case epoch_loop be batch_size patience train_part val_part [0..<nat epochs] st0 of
             Inl e \<Rightarrow> Inl e
           | Inr st \<Rightarrow> Inr (weights st, history st))"

subsection \<open>The component\<close>

text \<open>
  What \<^verbatim>\<open>train\<close> leaves behind: the files it writes, by path, the \<^verbatim>\<open>feature\<close> entries of
  the three artifacts' metadata, and the metrics given to \<^verbatim>\<open>log_metric\<close>.
\<close>

datatype 'w artifact_file = Scaler_file scaler | Metrics_file "epoch_logs list" | Model_file 'w

record 'w artifacts =
  files :: "string \<rightharpoonup> 'w artifact_file"
  scaler_model_feature :: "string option"
  metrics_feature :: "string option"
  keras_model_feature :: "string option"
  logged_metrics :: "epoch_logs list option"

text \<open>
  Lines 56 and 57 (the fitted scaler is saved as soon as it is fitted):
  \<^verbatim>\<open>
  scaler_model.metadata['feature'] = feature
  joblib.dump(scaler, scaler_model.path + f'_{feature}.joblib')
  \<close>
\<close>

definition save_scaler :: "string \<Rightarrow> string \<Rightarrow> scaler \<Rightarrow> 'w artifacts \<Rightarrow> 'w artifacts" where
  "save_scaler feature scaler_model fitted store =
     (let store = store\<lparr>scaler_model_feature := Some feature\<rparr>
      in store\<lparr>files := (files store)
                 (scaler_model @ ''_'' @ feature @ ''.joblib'' \<mapsto> Scaler_file fitted)\<rparr>)"

text \<open>
  Lines 94 to 101, after the fit has returned: the metrics file, the logged metrics, the
  metadata of the two artifacts, and the model file.
\<close>

definition save_results ::
  "string \<Rightarrow> string \<Rightarrow> string \<Rightarrow> 'w \<Rightarrow> epoch_logs list \<Rightarrow> 'w artifacts \<Rightarrow> 'w artifacts" where
  "save_results feature keras_model metrics w h store =
     (let store = store\<lparr>files := (files store)
                    (metrics @ ''_'' @ feature @ ''.json'' \<mapsto> Metrics_file h)\<rparr>;
          store = store\<lparr>logged_metrics := Some h\<rparr>;
          store = store\<lparr>metrics_feature := Some feature\<rparr>;
          store = store\<lparr>keras_model_feature := Some feature\<rparr>
      in store\<lparr>files := (files store)
                 (keras_model @ ''_'' @ feature @ ''.h5'' \<mapsto> Model_file w)\<rparr>)"

text \<open>
  \<^verbatim>\<open>train\<close> itself. \<open>train_data\<close> is the table read from the input (a map from column
  names to columns; a missing column is a \<^verbatim>\<open>KeyError\<close>); \<open>scaler_model\<close>, \<open>keras_model\<close>
  and \<open>metrics\<close> are the paths of the three output artifacts. The result is the
  exception the call ends with, if any, and the artifacts as the call leaves them.
\<close>

definition train ::
  "'w backend \<Rightarrow> string \<Rightarrow> int \<Rightarrow> int \<Rightarrow> real \<Rightarrow> int \<Rightarrow> int \<Rightarrow> int \<Rightarrow>
     (string \<rightharpoonup> real list) \<Rightarrow> string \<Rightarrow> string \<Rightarrow> string \<Rightarrow>
     'w artifacts \<Rightarrow> error option \<times> 'w artifacts" where
  "train be feature lookback lstm_units learning_rate0 epochs batch_size patience
         train_data scaler_model keras_model metrics store =
     (case train_data feature of
        None \<Rightarrow> (Some KeyError, store)
      | Some column \<Rightarrow>
     (case fit_transform column of
        Inl e \<Rightarrow> (Some e, store)
      | Inr (fitted, scaled_train) \<Rightarrow>
     let store = save_scaler feature scaler_model fitted store in
     (case supervised_windows lookback scaled_train of
        Inl e \<Rightarrow> (Some e, store)
      | Inr (x_train, y_train) \<Rightarrow>
     (case build be lstm_units (length (hd x_train), 1) learning_rate0 of
        Inl e \<Rightarrow> (Some e, store)
      | Inr w0 \<Rightarrow>
     (case model_fit be w0 learning_rate0 x_train y_train epochs batch_size patience of
        Inl e \<Rightarrow> (Some e, store)
      | Inr (w, h) \<Rightarrow> (None, save_results feature keras_model metrics w h store))))))"

text \<open>
  The artifacts of a fresh run, and a network whose weights only count the epochs it was
  trained for and whose validation loss is read from a table; they serve as concrete
  inputs.
\<close>

definition no_artifacts :: "'w artifacts" where
  "no_artifacts = \<lparr>files = Map.empty, scaler_model_feature = None, metrics_feature = None,
                    keras_model_feature = None, logged_metrics = None\<rparr>"

definition counting_backend :: "real list \<Rightarrow> nat backend" where
  "counting_backend losses =
     \<lparr>build = (\<lambda>lstm_units input_shape learning_rate. Inr 0),
      train_epoch = (\<lambda>w learning_rate batch_size x y. Inr (Suc w, 0, 0)),
      evaluate = (\<lambda>w x y. (if w < length losses then losses ! w else 0, 0))\<rparr>"

subsection \<open>The training run as a sequence of epochs\<close>




section \<open>Properties of \<^verbatim>\<open>split_data\<close>\<close>



text \<open>
  A value that is not finite does not reach the slices: the conversion to \<^verbatim>\<open>int\<close>
  raises.
\<close>

lemma split_data_not_finite:
  "split_data NaN df = Inl ValueError"
  "split_data PosInf df = Inl (if df = [] then ValueError else OverflowError)"
  "split_data NegInf df = Inl (if df = [] then ValueError else OverflowError)"
  by (simp_all add: split_data_def)






section \<open>Properties of the supervised windows\<close>

lemma window_loop_in_range:
  "\<forall>i\<in>set is. 0 \<le> i \<and> i < int (length sc) \<Longrightarrow>
   window_loop L sc is (xs, ys) =
     Inr (xs @ map (\<lambda>i. np_slice sc (i - L) i) is, ys @ map (\<lambda>i. [sc ! nat i]) is)"
  by (induction "is" arbitrary: xs ys) (simp_all add: np_index_def)

lemma take_drop_eq_map_nth:
  "k + m \<le> length xs \<Longrightarrow> take m (drop k xs) = map ((!) xs) [k..<k + m]"
  by (rule nth_equalityI) simp_all

lemma np_slice_window:
  assumes "k + L \<le> length sc"
  shows "np_slice sc (int k) (int L + int k) = map ((!) sc) [k..<k + L]"
proof -
  have "clip_index (int (length sc)) (int k) = int k"
    and "clip_index (int (length sc)) (int L + int k) = int L + int k"
    using assms by (simp_all add: clip_index_def)
  then have "np_slice sc (int k) (int L + int k) = take L (drop k sc)"
    by (simp add: np_slice_def)
  then show ?thesis
    using assms by (simp add: take_drop_eq_map_nth)
qed

lemma py_range_eq_map:
  "a \<le> b \<Longrightarrow> py_range a b = map (\<lambda>j. a + int j) [0..<nat (b - a)]"
  by (rule nth_equalityI) (simp_all add: py_range_def)

lemma supervised_windows_nat:
  assumes "L < length sc"
  shows "supervised_windows (int L) sc =
    Inr (map (\<lambda>i. map ((!) sc) [i..<i + L]) [0..<length sc - L],
         map (\<lambda>i. [sc ! (i + L)]) [0..<length sc - L])"
proof -
  define x where "x = map (\<lambda>i. map ((!) sc) [i..<i + L]) [0..<length sc - L]"
  define y where "y = map (\<lambda>i. [sc ! (i + L)]) [0..<length sc - L]"
  define r where "r = py_range (int L) (int (length sc))"
  have r: "r = map (\<lambda>j. int L + int j) [0..<length sc - L]"
    using assms by (simp add: r_def py_range_eq_map nat_diff_distrib')
  have inr: "\<forall>i\<in>set r. 0 \<le> i \<and> i < int (length sc)"
    unfolding r using assms by auto
  have slices: "map (\<lambda>i. np_slice sc (i - int L) i) r = x"
    unfolding r x_def using assms by (simp add: np_slice_window comp_def)
  have rows: "map (\<lambda>i. [sc ! nat i]) r = y"
    unfolding r y_def by (simp add: comp_def nat_add_distrib add.commute)
  have loop: "window_loop (int L) sc r ([], []) = Inr (x, y)"
    using window_loop_in_range [OF inr, of "int L" "[]" "[]"] slices rows by simp
  have x_ne: "x \<noteq> []" and y_ne: "y \<noteq> []"
    using assms by (simp_all add: x_def y_def)
  have "\<forall>a\<in>set x. length a = L" and "length (hd x) = L"
    using assms by (auto simp: x_def hd_map)
  then have "\<not> list_ex (\<lambda>a. length a \<noteq> length (hd x)) x"
    by (simp add: list_ex_iff)
  then have sx: "np_stack x = Inr x"
    using x_ne by (simp add: np_stack_def)
  have "\<forall>a\<in>set y. length a = 1" and "length (hd y) = 1"
    using assms by (auto simp: y_def hd_map)
  then have "\<not> list_ex (\<lambda>a. length a \<noteq> length (hd y)) y"
    by (simp add: list_ex_iff)
  then have sy: "np_stack y = Inr y"
    using y_ne by (simp add: np_stack_def)
  show ?thesis
    using loop sx sy unfolding x_def [symmetric] y_def [symmetric]
    by (simp add: supervised_windows_def r_def)
qed

text \<open>
  Claim C1. For a scaled sequence of length \<open>n\<close> and a lookback \<open>L\<close> with \<open>L < n\<close>
  (a window length, so \<open>0 \<le> L\<close>), the window construction of \<^verbatim>\<open>train\<close> returns
  exactly \<open>n - L\<close> windows and \<open>n - L\<close> labels; window \<open>i\<close> holds the scaled values at
  the indices \<open>i, \<dots>, i + L - 1\<close> and label \<open>i\<close> is the scaled value at index \<open>i + L\<close>.
\<close>

theorem supervised_windows_pairs:
  assumes "0 \<le> lookback" and "lookback < int (length scaled_train)"
  shows "\<exists>x y. supervised_windows lookback scaled_train = Inr (x, y)
    \<and> length x = length scaled_train - nat lookback
    \<and> length y = length scaled_train - nat lookback
    \<and> (\<forall>i < length scaled_train - nat lookback.
          x ! i = map ((!) scaled_train) [i..<i + nat lookback]
          \<and> y ! i = [scaled_train ! (i + nat lookback)])"
proof -
  have "nat lookback < length scaled_train" and "int (nat lookback) = lookback"
    using assms by simp_all
  then show ?thesis
    using supervised_windows_nat [of "nat lookback" scaled_train] by simp
qed

theorem supervised_windows_pairs_witness:
  "\<exists>x y. supervised_windows 3 [1, 2, 3, 4, 5, 6, 7, 8, 9, 10] = Inr (x, y)
     \<and> length x = 7 \<and> length y = 7
     \<and> x ! 0 = [1, 2, 3] \<and> y ! 0 = [4] \<and> x ! 6 = [7, 8, 9] \<and> y ! 6 = [10]"
proof -
  let ?s = "[1, 2, 3, 4, 5, 6, 7, 8, 9, 10] :: real list"
  from supervised_windows_pairs [of 3 ?s]
  obtain x y where run: "supervised_windows 3 ?s = Inr (x, y)"
    and len: "length x = 7" "length y = 7"
    and pairs: "\<forall>i<7. x ! i = map ((!) ?s) [i..<i + 3] \<and> y ! i = [?s ! (i + 3)]"
    by auto
  have "[0..<0 + 3] = [0, 1, 2]" and "[6..<6 + 3] = [6, 7, 8]"
    by (simp_all add: upt_rec)
  with pairs have "x ! 0 = [1, 2, 3]" and "y ! 0 = [4]" and "x ! 6 = [7, 8, 9]" and "y ! 6 = [10]"
    by simp_all
  with run len show ?thesis
    by blast
qed

section \<open>Properties of the scaler\<close>

lemma handle_zeros_in_scale_nonzero: "handle_zeros_in_scale s \<noteq> 0"
  by (simp add: handle_zeros_in_scale_def float_eps_def)

lemma scaler_fit_nonempty:
  "X \<noteq> [] \<Longrightarrow> scaler_fit X =
     Inr \<lparr>data_min = Min (set X), data_max = Max (set X),
          data_range = Max (set X) - Min (set X),
          scale = 1 / handle_zeros_in_scale (Max (set X) - Min (set X)),
          min_offset = 0 - Min (set X) * (1 / handle_zeros_in_scale (Max (set X) - Min (set X)))\<rparr>"
  by (simp add: scaler_fit_def divide_def handle_zeros_in_scale_nonzero Let_def)

lemma fit_transform_empty: "fit_transform [] = Inl ValueError"
  by (simp add: fit_transform_def scaler_fit_def)

lemma fit_transform_nonempty:
  "X \<noteq> [] \<Longrightarrow> \<exists>s. fit_transform X = Inr (s, transform s X)"
  by (simp add: fit_transform_def scaler_fit_nonempty)

lemma fit_transform_length:
  "fit_transform X = Inr (s, scaled) \<Longrightarrow> length scaled = length X"
  by (auto simp: fit_transform_def transform_def split: sum.splits)

lemma fit_transform_error:
  "fit_transform X = Inl e \<Longrightarrow> X = [] \<and> e = ValueError"
  using fit_transform_nonempty [of X] by (cases "X = []") (auto simp: fit_transform_empty)

text \<open>
  Claim C6. For a constant training column (its maximum equals its minimum), fitting and
  applying the scaler divides by 1, not by the zero range: no error is raised, and every
  transformed value is \<open>0\<close>.
\<close>

theorem constant_column_scaled_to_zero:
  assumes "X \<noteq> []" and "Max (set X) = Min (set X)"
  shows "\<exists>s. fit_transform X = Inr (s, replicate (length X) 0)
    \<and> data_range s = 0 \<and> scale s = 1"
proof -
  define s where "s = \<lparr>data_min = Min (set X), data_max = Max (set X),
          data_range = Max (set X) - Min (set X),
          scale = 1 / handle_zeros_in_scale (Max (set X) - Min (set X)),
          min_offset = 0 - Min (set X) * (1 / handle_zeros_in_scale (Max (set X) - Min (set X)))\<rparr>"
  have fit: "fit_transform X = Inr (s, transform s X)"
    using assms(1) by (simp add: fit_transform_def scaler_fit_nonempty s_def)
  have sc: "scale s = 1" and off: "min_offset s = - Min (set X)" and rg: "data_range s = 0"
    using assms(2) by (simp_all add: s_def handle_zeros_in_scale_def float_eps_def)
  have "x = Min (set X)" if "x \<in> set X" for x
  proof -
    have "Min (set X) \<le> x" and "x \<le> Max (set X)"
      using that by simp_all
    with assms(2) show ?thesis
      by simp
  qed
  then have "transform s X = replicate (length X) 0"
    by (intro nth_equalityI) (simp_all add: transform_def sc off)
  with fit sc rg show ?thesis
    by auto
qed

theorem constant_column_scaled_to_zero_witness:
  "\<exists>s. fit_transform [4, 4, 4] = Inr (s, [0, 0, 0]) \<and> data_range s = 0 \<and> scale s = 1"
  using constant_column_scaled_to_zero [of "[4, 4, 4]"] by (simp add: numeral_3_eq_3)

section \<open>Properties of \<^verbatim>\<open>train\<close>\<close>

lemma np_stack_empty: "np_stack [] = Inl ValueError"
  by (simp add: np_stack_def)

lemma supervised_windows_short:
  "int (length scaled_train) \<le> lookback \<Longrightarrow>
   supervised_windows lookback scaled_train = Inl ValueError"
  by (simp add: supervised_windows_def py_range_def np_stack_empty)

text \<open>
  A run that fails leaves the artifacts as they were, or with the saved scaler as the
  one change.
\<close>

lemma train_failure:
  assumes "train be feature lookback lstm_units learning_rate0 epochs batch_size patience
         train_data scaler_model keras_model metrics store = (Some e, store')"
  shows "store' = store
    \<or> (\<exists>column fitted scaled_train.
          train_data feature = Some column
          \<and> fit_transform column = Inr (fitted, scaled_train)
          \<and> store' = save_scaler feature scaler_model fitted store)"
  using assms
  by (auto simp: train_def Let_def split: option.splits sum.splits prod.splits)

lemma save_scaler_files:
  "files (save_scaler feature scaler_model fitted store) =
     (files store)(scaler_model @ ''_'' @ feature @ ''.joblib'' \<mapsto> Scaler_file fitted)"
  "keras_model_feature (save_scaler feature scaler_model fitted store) = keras_model_feature store"
  "metrics_feature (save_scaler feature scaler_model fitted store) = metrics_feature store"
  "logged_metrics (save_scaler feature scaler_model fitted store) = logged_metrics store"
  by (simp_all add: save_scaler_def)

text \<open>
  Claim C7. When the feature column has at most \<open>lookback\<close> values, the loop over
  \<^verbatim>\<open>range(lookback, len(scaled_train))\<close> builds no window, \<^verbatim>\<open>np.stack\<close> refuses the empty
  list, and \<^verbatim>\<open>train\<close> ends with that \<^verbatim>\<open>ValueError\<close>; the run writes no model file.
\<close>

theorem short_column_fails:
  assumes "train_data feature = Some column" and "int (length column) \<le> lookback"
  shows "\<exists>store'.
      train be feature lookback lstm_units learning_rate0 epochs batch_size patience
        train_data scaler_model keras_model metrics store = (Some ValueError, store')
    \<and> (\<forall>fitted scaled_train. fit_transform column = Inr (fitted, scaled_train) \<longrightarrow>
          supervised_windows lookback scaled_train = Inl ValueError)
    \<and> (\<forall>p w. files store' p = Some (Model_file w) \<longrightarrow> files store p = Some (Model_file w))"
proof -
  have short: "supervised_windows lookback scaled_train = Inl ValueError"
    if "fit_transform column = Inr (fitted, scaled_train)" for fitted scaled_train
    using that assms(2) by (simp add: supervised_windows_short fit_transform_length)
  obtain store' where run:
    "train be feature lookback lstm_units learning_rate0 epochs batch_size patience
       train_data scaler_model keras_model metrics store = (Some ValueError, store')"
  proof (cases "fit_transform column")
    case (Inl e)
    then have "e = ValueError"
      by (simp add: fit_transform_error)
    with Inl assms(1) that show ?thesis
      by (simp add: train_def)
  next
    case (Inr r)
    then obtain fitted scaled_train where "fit_transform column = Inr (fitted, scaled_train)"
      by (cases r) simp
    with short assms(1) that show ?thesis
      by (simp add: train_def)
  qed
  from train_failure [OF run]
  have "\<forall>p w. files store' p = Some (Model_file w) \<longrightarrow> files store p = Some (Model_file w)"
    by (auto simp: save_scaler_files split: if_splits)
  with run short show ?thesis
    by blast
qed

theorem short_column_fails_witness:
  "\<exists>store'.
      train (counting_backend []) ''f'' 5 8 1 10 1 2 [''f'' \<mapsto> [1, 2]]
        ''scaler'' ''keras'' ''metrics'' no_artifacts = (Some ValueError, store')
    \<and> (\<forall>p w. files store' p \<noteq> Some (Model_file w))"
  using short_column_fails [of "[''f'' \<mapsto> [1, 2]]" "''f''" "[1, 2]" 5 "counting_backend []"
      8 1 10 1 2 "''scaler''" "''keras''" "''metrics''" no_artifacts]
  by (auto simp: no_artifacts_def)

text \<open>
  Claim C10, as the code has it. A run of \<^verbatim>\<open>train\<close> that ends with an error has written
  no model file and no metrics file and has set no metadata of these two artifacts. It
  has either changed nothing, or it failed after the scaler was fitted, and then the
  fitted scaler, which is saved before the windows are built, is left behind.
\<close>

theorem failed_run_artifacts:
  assumes "train be feature lookback lstm_units learning_rate0 epochs batch_size patience
         train_data scaler_model keras_model metrics store = (Some e, store')"
  shows "(store' = store
      \<or> (\<exists>column fitted scaled_train.
            train_data feature = Some column
            \<and> fit_transform column = Inr (fitted, scaled_train)
            \<and> store' = save_scaler feature scaler_model fitted store
            \<and> files store' (scaler_model @ ''_'' @ feature @ ''.joblib'') = Some (Scaler_file fitted)))
    \<and> (\<forall>p w. files store' p = Some (Model_file w) \<longrightarrow> files store p = Some (Model_file w))
    \<and> (\<forall>p h. files store' p = Some (Metrics_file h) \<longrightarrow> files store p = Some (Metrics_file h))
    \<and> keras_model_feature store' = keras_model_feature store
    \<and> metrics_feature store' = metrics_feature store
    \<and> logged_metrics store' = logged_metrics store"
  using train_failure [OF assms]
  by (auto simp: save_scaler_files split: if_splits)

theorem failed_run_artifacts_witness:
  "\<exists>fitted.
     train (counting_backend []) ''f'' 3 8 1 10 1 2 [''f'' \<mapsto> [1, 2, 3]]
       ''scaler'' ''keras'' ''metrics'' no_artifacts =
       (Some ValueError, save_scaler ''f'' ''scaler'' fitted no_artifacts)
     \<and> files (save_scaler ''f'' ''scaler'' fitted (no_artifacts :: nat artifacts)) ''keras_f.h5'' = None"
proof -
  have run: "train (counting_backend []) ''f'' 3 8 1 10 1 2 [''f'' \<mapsto> [1, 2, 3]]
       ''scaler'' ''keras'' ''metrics'' no_artifacts =
     (Some ValueError, save_scaler ''f'' ''scaler''
        \<lparr>data_min = 1, data_max = 3, data_range = 2, scale = 1 / 2, min_offset = - (1 / 2)\<rparr>
        no_artifacts)"
    by (simp add: train_def fit_transform_def scaler_fit_def handle_zeros_in_scale_def
        float_eps_def divide_def transform_def supervised_windows_short)
  from failed_run_artifacts [OF run] show ?thesis
    using run by (auto simp: save_scaler_files no_artifacts_def)
qed

text \<open>
  As stated, with no fitted scaler left behind, the claim fails: a column of two values
  and a lookback of 5 end the run with the \<^verbatim>\<open>ValueError\<close> of \<^verbatim>\<open>np.stack\<close>, and the
  scaler file is there.
\<close>

theorem failed_run_leaves_scaler_counterexample:
  "train (counting_backend []) ''f'' 5 8 1 10 1 2 [''f'' \<mapsto> [1, 2]]
     ''scaler'' ''keras'' ''metrics'' no_artifacts =
     (Some ValueError,
      no_artifacts\<lparr>scaler_model_feature := Some ''f'',
        files := [''scaler_f.joblib'' \<mapsto>
          Scaler_file \<lparr>data_min = 1, data_max = 2, data_range = 1, scale = 1, min_offset = - 1\<rparr>]\<rparr>)"
  by (simp add: train_def fit_transform_def scaler_fit_def handle_zeros_in_scale_def
      float_eps_def divide_def transform_def supervised_windows_short save_scaler_def
      no_artifacts_def)

section \<open>Properties of \<^verbatim>\<open>read_raw_data\<close>\<close>

lemma split_from_first:
  "split_from sep cur s ! 0 = cur @ takeWhile (\<lambda>c. c \<noteq> sep) s"
  by (induction s arbitrary: cur) simp_all

lemma split_first: "split sep s ! 0 = first_segment sep s"
  by (simp add: split_def first_segment_def split_from_first)

lemma split_from_nonempty: "split_from sep cur s \<noteq> []"
  by (induction s arbitrary: cur) simp_all

lemma slice_from_last_three: "slice_from (- 3) s = last_three s"
proof -
  have "nat (max 0 (int (length s) - 3)) = length s - 3"
    by linarith
  then show ?thesis
    by (simp add: slice_from_def clip_index_def last_three_def)
qed

lemma lstrip_0D: "lstrip ''0D'' s = strip_leading_0D s"
  by (simp add: lstrip_def strip_leading_0D_def)

lemma py_int_error: "py_int s = Inl e \<Longrightarrow> e = ValueError"
  by (auto simp: py_int_def Let_def split: option.splits prod.splits)

text \<open>
  Claim C4. The unit that the code derives from a file name is the one the two steps of
  the specification describe, the second step being taken only when the parse of the
  first fails; every name that starts with \<^verbatim>\<open>U013-\<close>, such as \<^verbatim>\<open>U013-run1.csv\<close>, has unit
  13.
\<close>

theorem unit_of_spec:
  "unit_of file = spec_unit_of file \<and> unit_of (''U013-'' @ rest) = Inr 13"
proof
  show "unit_of file = spec_unit_of file"
  proof (cases "py_int (strip_leading_0D (last_three (first_segment CHR ''-'' file)))")
    case (Inl e)
    moreover from Inl have "e = ValueError"
      by (rule py_int_error)
    ultimately show ?thesis
      by (simp add: unit_of_def spec_unit_of_def split_first slice_from_last_three lstrip_0D)
  next
    case (Inr u)
    then show ?thesis
      by (simp add: unit_of_def spec_unit_of_def split_first slice_from_last_three lstrip_0D)
  qed
  have "py_int ''13'' = Inr 13"
    by (simp add: py_int_def strip_def is_space_def parse_unsigned_def is_digit_def digit_val_def)
  then show "unit_of (''U013-'' @ rest) = Inr 13"
    by (simp add: unit_of_def split_first slice_from_last_three lstrip_0D
        first_segment_def last_three_def strip_leading_0D_def)
qed

theorem unit_of_spec_witness:
  "unit_of ''U013-run1.csv'' = Inr 13 \<and> spec_unit_of ''U013-run1.csv'' = Inr 13"
  using unit_of_spec [of "''U013-run1.csv''" "''run1.csv''"] by (elim conjE) simp

lemma accepted_iff: "accepted file \<longleftrightarrow> is_raw_csv file \<or> is_raw_excel file"
  by (auto simp: accepted_def is_raw_csv_def is_raw_excel_def)

text \<open>The three ways one pass of the loop body can go.\<close>

lemma read_file_skip:
  "\<not> is_read (file, content) \<Longrightarrow>
   read_file st (file, content) =
     Inr (st\<lparr>messages := messages st @ [Reading file,
        if accepted file then Cannot_read file else Not_valid_raw_data_file file]\<rparr>)"
  by (auto simp: read_file_def is_read_def accepted_iff info_def)

lemma read_file_unlabelled:
  "accepted file \<Longrightarrow> unit_of file = Inl e \<Longrightarrow>
   read_file st (file, Some df) = Inl e"
  by (simp add: read_file_def accepted_iff)

lemma read_file_labelled:
  "accepted file \<Longrightarrow> unit_of file = Inr u \<Longrightarrow>
   read_file st (file, Some df) =
     Inr (st\<lparr>messages := messages st @ [Reading file, Has_been_read file],
            units := units st @ [u],
            final_df := final_df st @
              map (\<lambda>r. \<lparr>raw = r, UNIT = u, TEST = int (count_list (units st) u) + 1\<rparr>) df\<rparr>)"
  by (simp add: read_file_def accepted_iff info_def Let_def)

lemma labelled_files_skip:
  "\<not> is_read entry \<Longrightarrow> labelled_files (entry # rest) = labelled_files rest"
  by (cases entry) (auto simp: is_read_def)

lemma labelled_files_labelled:
  "accepted file \<Longrightarrow> unit_of file = Inr u \<Longrightarrow>
   labelled_files ((file, Some df) # rest) = (u, df) # labelled_files rest"
  by simp

lemma read_files_labels:
  "read_files st0 listing = Inr st \<Longrightarrow>
   units st = units st0 @ map fst (labelled_files listing)
   \<and> filter (\<lambda>row. UNIT row = u) (final_df st) =
       filter (\<lambda>row. UNIT row = u) (final_df st0) @
       concat (map (\<lambda>(i, unit, df). map (\<lambda>r. \<lparr>raw = r, UNIT = u, TEST = int i\<rparr>) df)
         (enumerate (Suc (count_list (units st0) u))
            (filter (\<lambda>(unit, df). unit = u) (labelled_files listing))))"
proof (induction listing arbitrary: st0)
  case Nil
  then show ?case by simp
next
  case (Cons entry rest)
  obtain fname content where entry: "entry = (fname, content)"
    by (cases entry)
  show ?case
  proof (cases "is_read entry")
    case False
    let ?st1 = "st0\<lparr>messages := messages st0 @ [Reading fname,
        if accepted fname then Cannot_read fname else Not_valid_raw_data_file fname]\<rparr>"
    from False have step: "read_file st0 entry = Inr ?st1"
      unfolding entry by (rule read_file_skip)
    with Cons.prems have "read_files ?st1 rest = Inr st"
      by simp
    from Cons.IH [OF this] show ?thesis
      by (simp add: labelled_files_skip [OF False])
  next
    case True
    then obtain df where content: "content = Some df" and acc: "accepted fname"
      by (auto simp: is_read_def entry)
    show ?thesis
    proof (cases "unit_of fname")
      case (Inl e)
      with Cons.prems acc show ?thesis
        by (simp add: entry content read_file_unlabelled)
    next
      case (Inr unit)
      let ?st1 = "st0\<lparr>messages := messages st0 @ [Reading fname, Has_been_read fname],
            units := units st0 @ [unit],
            final_df := final_df st0 @
              map (\<lambda>r. \<lparr>raw = r, UNIT = unit, TEST = int (count_list (units st0) unit) + 1\<rparr>) df\<rparr>"
      from acc Inr have step: "read_file st0 entry = Inr ?st1"
        unfolding entry content by (rule read_file_labelled)
      with Cons.prems have "read_files ?st1 rest = Inr st"
        by simp
      from Cons.IH [OF this] show ?thesis
        unfolding entry content labelled_files_labelled [OF acc Inr]
        by (auto simp: filter_empty_conv)
    qed
  qed
qed

text \<open>
  Claim C3. After a scan, the rows of the table that carry a unit \<open>u\<close> are the rows of
  the first labelled file of unit \<open>u\<close> with \<open>TEST = 1\<close>, then the rows of the second with
  \<open>TEST = 2\<close>, and so on through the labelled files of unit \<open>u\<close> in the order of the
  scan: the \<open>i\<close>-th file that carries \<open>u\<close> has \<open>TEST = i\<close>.
\<close>

theorem test_is_encounter_number:
  assumes "read_raw_data listing = Inr st"
  shows "filter (\<lambda>row. UNIT row = u) (final_df st) =
       concat (map (\<lambda>(i, unit, df). map (\<lambda>r. \<lparr>raw = r, UNIT = u, TEST = int i\<rparr>) df)
         (enumerate 1 (filter (\<lambda>(unit, df). unit = u) (labelled_files listing))))"
  using read_files_labels [of "\<lparr>final_df = [], units = [], messages = []\<rparr>" listing st u] assms
  by (simp add: read_raw_data_def)

theorem test_is_encounter_number_witness:
  "\<exists>st. read_raw_data
       [(''U013-RAW1.csv'', Some [1, 2 :: nat]), (''notes.txt'', Some [9]),
        (''U014-RAW1.xlsx'', Some [3]), (''U013-RAW2.csv'', None),
        (''U013-RAW3.csv'', Some [4]), (''D13_RAW-4.xls'', Some [5])] = Inr st
     \<and> filter (\<lambda>row. UNIT row = 13) (final_df st) =
         [\<lparr>raw = 1, UNIT = 13, TEST = 1\<rparr>, \<lparr>raw = 2, UNIT = 13, TEST = 1\<rparr>,
          \<lparr>raw = 4, UNIT = 13, TEST = 2\<rparr>, \<lparr>raw = 5, UNIT = 13, TEST = 3\<rparr>]"
proof -
  let ?listing = "[(''U013-RAW1.csv'', Some [1, 2 :: nat]), (''notes.txt'', Some [9]),
        (''U014-RAW1.xlsx'', Some [3]), (''U013-RAW2.csv'', None),
        (''U013-RAW3.csv'', Some [4]), (''D13_RAW-4.xls'', Some [5])]"
  have files: "labelled_files ?listing = [(13, [1, 2]), (14, [3]), (13, [4]), (13, [5])]"
    by code_simp
  have "case read_raw_data ?listing of Inl e \<Rightarrow> False | Inr st \<Rightarrow> True"
    by code_simp
  then obtain st where run: "read_raw_data ?listing = Inr st"
    by (cases "read_raw_data ?listing") simp_all
  from test_is_encounter_number [OF run, of 13, unfolded files] show ?thesis
    using run by (intro exI [of _ st]) simp
qed

lemma read_files_skipped:
  "final_df st = final_df st' \<Longrightarrow> units st = units st' \<Longrightarrow>
   outcome (read_files st listing) = outcome (read_files st' (filter is_read listing))"
proof (induction listing arbitrary: st st')
  case Nil
  then show ?case by (simp add: outcome_def)
next
  case (Cons entry rest)
  obtain fname content where entry: "entry = (fname, content)"
    by (cases entry)
  show ?case
  proof (cases "is_read entry")
    case False
    let ?st1 = "st\<lparr>messages := messages st @ [Reading fname,
        if accepted fname then Cannot_read fname else Not_valid_raw_data_file fname]\<rparr>"
    from False have "read_file st entry = Inr ?st1"
      unfolding entry by (rule read_file_skip)
    moreover have "outcome (read_files ?st1 rest) = outcome (read_files st' (filter is_read rest))"
      using Cons.prems by (intro Cons.IH) simp_all
    ultimately show ?thesis
      using False by simp
  next
    case True
    then obtain df where content: "content = Some df" and acc: "accepted fname"
      by (auto simp: is_read_def entry)
    show ?thesis
    proof (cases "unit_of fname")
      case (Inl e)
      with True acc show ?thesis
        by (simp add: entry content read_file_unlabelled)
    next
      case (Inr unit)
      let ?upd = "\<lambda>s :: 'a scan_state. s\<lparr>messages := messages s @ [Reading fname, Has_been_read fname],
            units := units s @ [unit],
            final_df := final_df s @
              map (\<lambda>r. \<lparr>raw = r, UNIT = unit, TEST = int (count_list (units s) unit) + 1\<rparr>) df\<rparr>"
      have "read_file st entry = Inr (?upd st)" and "read_file st' entry = Inr (?upd st')"
        unfolding entry content using acc Inr by (rule read_file_labelled)+
      moreover have "outcome (read_files (?upd st) rest) =
          outcome (read_files (?upd st') (filter is_read rest))"
        using Cons.prems by (intro Cons.IH) simp_all
      ultimately show ?thesis
        using True by simp
    qed
  qed
qed

lemma read_files_rows:
  "read_files st0 listing = Inr st \<Longrightarrow>
   map raw (final_df st) =
     map raw (final_df st0) @ concat (map (\<lambda>entry. the (snd entry)) (filter is_read listing))"
proof (induction listing arbitrary: st0)
  case Nil
  then show ?case by simp
next
  case (Cons entry rest)
  obtain fname content where entry: "entry = (fname, content)"
    by (cases entry)
  show ?case
  proof (cases "is_read entry")
    case False
    then have "read_file st0 entry = Inr (st0\<lparr>messages := messages st0 @ [Reading fname,
        if accepted fname then Cannot_read fname else Not_valid_raw_data_file fname]\<rparr>)"
      unfolding entry by (rule read_file_skip)
    with Cons.prems have "read_files (st0\<lparr>messages := messages st0 @ [Reading fname,
        if accepted fname then Cannot_read fname else Not_valid_raw_data_file fname]\<rparr>) rest = Inr st"
      by simp
    from Cons.IH [OF this] False show ?thesis
      by simp
  next
    case True
    then obtain df where content: "content = Some df" and acc: "accepted fname"
      by (auto simp: is_read_def entry)
    show ?thesis
    proof (cases "unit_of fname")
      case (Inl e)
      with Cons.prems acc show ?thesis
        by (simp add: entry content read_file_unlabelled)
    next
      case (Inr unit)
      with Cons.prems acc have "read_files (st0\<lparr>messages := messages st0 @ [Reading fname, Has_been_read fname],
            units := units st0 @ [unit],
            final_df := final_df st0 @
              map (\<lambda>r. \<lparr>raw = r, UNIT = unit, TEST = int (count_list (units st0) unit) + 1\<rparr>) df\<rparr>) rest = Inr st"
        by (simp add: entry content read_file_labelled)
      from Cons.IH [OF this] True show ?thesis
        by (simp add: entry content comp_def)
    qed
  qed
qed

text \<open>
  Claim C9. An entry that is not read (its name lacks the extension or the marker, or
  the reader raises on it) only adds two messages to the log and the scan goes on. The
  scan of a listing ends as the scan of its read entries alone does, with the same error
  or with the same table and units; and the rows of the table are the rows of the read
  entries, in their order.
\<close>

theorem skipped_entries:
  "(\<not> is_read (file, content) \<longrightarrow>
      read_file st0 (file, content) =
        Inr (st0\<lparr>messages := messages st0 @ [Reading file,
          if accepted file then Cannot_read file else Not_valid_raw_data_file file]\<rparr>))
   \<and> outcome (read_raw_data listing) = outcome (read_raw_data (filter is_read listing))
   \<and> (\<forall>st. read_raw_data listing = Inr st \<longrightarrow>
         map raw (final_df st) = concat (map (\<lambda>entry. the (snd entry)) (filter is_read listing)))"
  using read_files_rows [of "\<lparr>final_df = [], units = [], messages = []\<rparr>" listing]
  by (simp add: read_file_skip read_files_skipped read_raw_data_def)

theorem skipped_entries_witness:
  "read_file \<lparr>final_df = [], units = [], messages = []\<rparr> (''notes.txt'', Some [9 :: nat]) =
     Inr \<lparr>final_df = [], units = [],
          messages = [Reading ''notes.txt'', Not_valid_raw_data_file ''notes.txt'']\<rparr>
   \<and> outcome (read_raw_data [(''U013-RAW1.csv'', Some [1, 2 :: nat]), (''notes.txt'', Some [9]),
          (''U013-RAW2.csv'', None)]) =
       Inr ([\<lparr>raw = 1, UNIT = 13, TEST = 1\<rparr>, \<lparr>raw = 2, UNIT = 13, TEST = 1\<rparr>], [13])"
proof -
  have a: "\<not> is_read (''notes.txt'', Some [9 :: nat])" and b: "\<not> accepted ''notes.txt''"
    by code_simp+
  have c: "filter is_read [(''U013-RAW1.csv'', Some [1, 2 :: nat]), (''notes.txt'', Some [9]),
          (''U013-RAW2.csv'', None)] = [(''U013-RAW1.csv'', Some [1, 2])]"
    by code_simp
  have d: "outcome (read_raw_data [(''U013-RAW1.csv'', Some [1, 2 :: nat])]) =
       Inr ([\<lparr>raw = 1, UNIT = 13, TEST = 1\<rparr>, \<lparr>raw = 2, UNIT = 13, TEST = 1\<rparr>], [13])"
    by code_simp
  from skipped_entries [of "''notes.txt''" "Some [9 :: nat]"
      "\<lparr>final_df = [], units = [], messages = []\<rparr>"
      "[(''U013-RAW1.csv'', Some [1, 2 :: nat]), (''notes.txt'', Some [9]),
          (''U013-RAW2.csv'', None)]"]
  show ?thesis
    using a b unfolding c d by simp
qed

section \<open>Properties of the training loop\<close>








end
